theory Spec2Isabelle
  imports Complex_Main "HOL-Library.Sublist" "HOL-Library.Word"
begin

section \<open>The OpenCL runtime of tinygrad (\<^verbatim>\<open>tinygrad/runtime/ops_gpu.py\<close>)\<close>

text \<open>
  The module drives a device through the \<^verbatim>\<open>pyopencl\<close> binding. The binding is not
  part of the repository, so the model does not say what the device computes. It records
  which calls the module makes, in which order and with which arguments (the
  \<open>trace\<close>), and it lets every call fail: an environment decides, from the calls made so
  far and the call at hand, whether the binding raises. A call that raises leaves the
  trace as it was. Every \<^verbatim>\<open>raise\<close>, failed \<^verbatim>\<open>assert\<close>, failed dictionary lookup and
  failed index of the source is an \<open>Inl\<close> result; the world is returned in both cases,
  since what was done before an exception stays done. Assertions are modelled as the
  interpreter runs them by default (not under \<^verbatim>\<open>-O\<close>).
\<close>

subsection \<open>Element types\<close>

text \<open>
  \<^verbatim>\<open>DType\<close> and its subclass \<^verbatim>\<open>ImageDType\<close> are declared in \<^verbatim>\<open>tinygrad.helpers\<close>. The
  module reads \<^verbatim>\<open>itemsize\<close> and \<^verbatim>\<open>name\<close> of any dtype and \<^verbatim>\<open>shape\<close> of an image dtype, and
  tests \<^verbatim>\<open>isinstance(dtype, ImageDType)\<close>: here \<open>shape\<close> is \<open>Some\<close> exactly for an
  instance of \<^verbatim>\<open>ImageDType\<close>.
\<close>

record DType =
  itemsize :: int
  name :: string
  shape :: "int list option"

text \<open>
  Modelled from the spec: \<^verbatim>\<open>prod\<close> of \<^verbatim>\<open>tinygrad.helpers\<close> is not under src. The spec
  states the check as \<^verbatim>\<open>size == rows*cols\<close>; \<open>prod_ints\<close> multiplies the entries of the
  shape, which is \<open>rows * cols\<close> on a shape of two entries.
\<close>

definition prod_ints :: "int list \<Rightarrow> int" where
  "prod_ints xs = foldr (*) xs 1"

subsection \<open>Errors\<close>

text \<open>
  What the binding raises: one of the three subclasses of \<^verbatim>\<open>cl.Error\<close>, or an exception
  that is not a \<^verbatim>\<open>cl.Error\<close> at all (\<open>OtherError\<close>), each with its message.
\<close>

datatype cl_error_class = MemoryError | LogicError | RuntimeError | OtherError

type_synonym cl_err = "cl_error_class \<times> string"

datatype assert_msg =
    image_size_mismatch int "int list"
  | cant_copyin DType
  | cant_copyout DType

datatype error =
    CLError cl_error_class string
  | AssertionError assert_msg
  | KeyError int
  | IndexError
  | UnicodeDecodeError
  | ImportError

text \<open>Python's \<^verbatim>\<open>xs[i]\<close>: a negative index counts from the end, out of range raises.\<close>

definition getitem :: "'a list \<Rightarrow> int \<Rightarrow> error + 'a" where
  "getitem xs i =
     (if 0 \<le> i \<and> i < int (length xs) then Inr (xs ! nat i)
      else if i < 0 \<and> - int (length xs) \<le> i then Inr (xs ! nat (int (length xs) + i))
      else Inl IndexError)"

subsection \<open>Calls into the binding\<close>

datatype device_type = GPU | CPU

record cl_device =
  device_name :: string

record cl_platform =
  gpu_devices :: "cl_err + cl_device list"
  cpu_devices :: "cl_err + cl_device list"

datatype mem_flags = READ_WRITE
datatype channel_order = RGBA
datatype channel_type = HALF_FLOAT | FLOAT
datatype cl_image_format = ImageFormat channel_order channel_type
datatype queue_properties = PROFILING_ENABLE
datatype profiling_info = profile_start | profile_end

datatype np_dtype = np_int32 | np_int64 | np_uint32 | np_float16 | np_float32

text \<open>
  A kernel object: the handle of the call that resolved it, and the scalar argument types
  it was given by \<^verbatim>\<open>set_scalar_arg_dtypes\<close> (\<open>None\<close> when that was never called).
\<close>

record cl_kernel =
  kernel_handle :: nat
  scalar_arg_dtypes :: "np_dtype option list option"

text \<open>What a kernel is called with: the handle of a memory object, or a host value as it is.\<close>

datatype 'v cl_arg = Mem nat | Raw 'v

text \<open>The two ends of \<^verbatim>\<open>enqueue_copy\<close>: a host array (its address) or a memory object.\<close>

datatype endpoint = HostArray nat | DeviceMem nat

datatype program_input = Source string | Binary "cl_device list" "string list"

text \<open>
  One constructor for each call of the binding the module makes. A handle is the position
  in the trace of the call that returned the object.
\<close>

datatype 'v cl_call =
    cl_Context "cl_device list"
  | cl_CommandQueue nat queue_properties
  | cl_Image nat mem_flags cl_image_format "int \<times> int"
  | cl_Buffer nat mem_flags int
  | cl_enqueue_copy nat endpoint endpoint bool
  | cl_Program nat program_input
  | cl_build nat
  | cl_getattr nat string
  | cl_get_info_BINARIES nat
  | cl_set_scalar_arg_dtypes nat "np_dtype option list"
  | cl_call_kernel cl_kernel nat "int list" "int list option" "'v cl_arg list"
  | cl_finish nat
  | cl_profile nat profiling_info

datatype printed =
    print_using cl_device
  | print_FAILED_TO_BUILD string
  | print_text string

record 'v world =
  trace :: "'v cl_call list"
  stdout :: "printed list"

text \<open>
  The environment of the module: the host platform, the two configuration values read
  through \<^verbatim>\<open>getenv\<close>, and the behaviour of what lies outside the repository (the binding,
  \<^verbatim>\<open>bytes.decode\<close>, the Adreno disassembler).
\<close>

record 'v env =
  OSX :: bool
  DEBUG :: int
  CL_DEVICE :: "int option"
  get_platforms :: "cl_err + cl_platform list"
  refuses :: "'v cl_call list \<Rightarrow> 'v cl_call \<Rightarrow> cl_err option"
  BINARIES :: "'v cl_call list \<Rightarrow> nat \<Rightarrow> string list"
  profile :: "'v cl_call list \<Rightarrow> nat \<Rightarrow> profiling_info \<Rightarrow> 64 word"
  decode_utf8 :: "string \<Rightarrow> string option"
  disasm :: "string \<Rightarrow> error + printed list"

text \<open>
  Modelled from the spec: \<^verbatim>\<open>getenv\<close> of \<^verbatim>\<open>tinygrad.helpers\<close> is not under src. The spec
  calls the selection index "configurable via an environment-style override (default:
  index 0)": the value of the variable when it is set, the default otherwise.
\<close>

definition getenv :: "int option \<Rightarrow> int \<Rightarrow> int" where
  "getenv var dflt = (case var of None \<Rightarrow> dflt | Some v \<Rightarrow> v)"

definition native :: "'v env \<Rightarrow> 'v cl_call \<Rightarrow> 'v world \<Rightarrow> (error + nat) \<times> 'v world" where
  "native env c w =
     (case refuses env (trace w) c of
        Some (k, msg) \<Rightarrow> (Inl (CLError k msg), w)
      | None \<Rightarrow> (Inr (length (trace w)), w\<lparr>trace := trace w @ [c]\<rparr>))"

definition print :: "printed \<Rightarrow> 'v world \<Rightarrow> 'v world" where
  "print p w = w\<lparr>stdout := stdout w @ [p]\<rparr>"

subsection \<open>\<^verbatim>\<open>_CL\<close>: the device context\<close>

record cl_context =
  context_handle :: nat
  devices :: "cl_device list"

record CL =
  cl_ctx :: cl_context
  cl_queue :: nat

fun get_devices :: "cl_platform \<Rightarrow> device_type \<Rightarrow> cl_err + cl_device list" where
  "get_devices x GPU = gpu_devices x"
| "get_devices x CPU = cpu_devices x"

text \<open>
  The list comprehension \<^verbatim>\<open>[x.get_devices(device_type=t) for x in cl.get_platforms()]\<close>:
  the platforms are asked in order and the first call that raises ends the comprehension.
\<close>

fun each_get_devices :: "device_type \<Rightarrow> cl_platform list \<Rightarrow> error + cl_device list list" where
  "each_get_devices t [] = Inr []"
| "each_get_devices t (x # xs) =
     (case get_devices x t of
        Inl (k, msg) \<Rightarrow> Inl (CLError k msg)
      | Inr ds \<Rightarrow>
          (case each_get_devices t xs of
             Inl e \<Rightarrow> Inl e
           | Inr dss \<Rightarrow> Inr (ds # dss)))"

text \<open>\<^verbatim>\<open>sum([...], [])\<close> over that comprehension.\<close>

definition sum_get_devices :: "'v env \<Rightarrow> device_type \<Rightarrow> error + cl_device list" where
  "sum_get_devices env t =
     (case get_platforms env of
        Inl (k, msg) \<Rightarrow> Inl (CLError k msg)
      | Inr ps \<Rightarrow>
          (case each_get_devices t ps of
             Inl e \<Rightarrow> Inl e
           | Inr dss \<Rightarrow> Inr (concat dss)))"

definition CL_init :: "'v env \<Rightarrow> 'v world \<Rightarrow> (error + CL) \<times> 'v world" where
  "CL_init env w =
     (case sum_get_devices env GPU of
        Inl e \<Rightarrow> (Inl e, w)
      | Inr gpus \<Rightarrow>
          (case (if length gpus = 0 then sum_get_devices env CPU else Inr gpus) of
             Inl e \<Rightarrow> (Inl e, w)
           | Inr devs \<Rightarrow>
               (case (if 1 < length devs \<or> 1 \<le> DEBUG env
                      then (case getitem devs (getenv (CL_DEVICE env) 0) of
                              Inl e \<Rightarrow> Inl e
                            | Inr d \<Rightarrow> Inr (print (print_using d) w))
                      else Inr w) of
                  Inl e \<Rightarrow> (Inl e, w)
                | Inr w1 \<Rightarrow>
                    (case getitem devs (getenv (CL_DEVICE env) 0) of
                       Inl e \<Rightarrow> (Inl e, w1)
                     | Inr d \<Rightarrow>
                         (case native env (cl_Context [d]) w1 of
                            (Inl e, w2) \<Rightarrow> (Inl e, w2)
                          | (Inr ctx, w2) \<Rightarrow>
                              (case native env (cl_CommandQueue ctx PROFILING_ENABLE) w2 of
                                 (Inl e, w3) \<Rightarrow> (Inl e, w3)
                               | (Inr q, w3) \<Rightarrow>
                                   (Inr \<lparr>cl_ctx = \<lparr>context_handle = ctx, devices = [d]\<rparr>,
                                         cl_queue = q\<rparr>, w3)))))))"

subsection \<open>\<^verbatim>\<open>CLBuffer\<close>\<close>

text \<open>
  Modelled from the spec: the base class \<^verbatim>\<open>RawBufferCopyInOut\<close> of
  \<^verbatim>\<open>tinygrad.runtime.lib\<close> is not under src. Its constructor is taken to store the three
  values it is given (the spec: a buffer "represents \<^verbatim>\<open>size\<close> elements of a given element
  type" and owns its native handle). The fields are \<^verbatim>\<open>size\<close>, \<^verbatim>\<open>dtype\<close> and \<^verbatim>\<open>_buf\<close>.
\<close>

record CLBuffer =
  buf_size :: int
  buf_dtype :: DType
  buf :: nat

text \<open>The dictionary literal \<^verbatim>\<open>{2: HALF_FLOAT, 4: FLOAT}\<close> of line 28.\<close>

definition channel_types :: "int \<rightharpoonup> channel_type" where
  "channel_types = [2 \<mapsto> HALF_FLOAT, 4 \<mapsto> FLOAT]"

definition CLBuffer_init ::
    "'v env \<Rightarrow> CL \<Rightarrow> int \<Rightarrow> DType \<Rightarrow> 'v world \<Rightarrow> (error + CLBuffer) \<times> 'v world" where
  "CLBuffer_init env cl sz dtype w =
     (case shape dtype of
        Some shp \<Rightarrow>
          (case channel_types (itemsize dtype) of
             None \<Rightarrow> (Inl (KeyError (itemsize dtype)), w)
           | Some ct \<Rightarrow>
               (case getitem shp 1 of
                  Inl e \<Rightarrow> (Inl e, w)
                | Inr s1 \<Rightarrow>
                    (case getitem shp 0 of
                       Inl e \<Rightarrow> (Inl e, w)
                     | Inr s0 \<Rightarrow>
                         (case native env (cl_Image (context_handle (cl_ctx cl)) READ_WRITE
                                             (ImageFormat RGBA ct) (s1, s0)) w of
                            (Inl e, w') \<Rightarrow> (Inl e, w')
                          | (Inr b, w') \<Rightarrow>
                              if sz = prod_ints shp
                              then (Inr \<lparr>buf_size = sz, buf_dtype = dtype, buf = b\<rparr>, w')
                              else (Inl (AssertionError (image_size_mismatch sz shp)), w')))))
      | None \<Rightarrow>
          (case native env (cl_Buffer (context_handle (cl_ctx cl)) READ_WRITE
                              (sz * itemsize dtype)) w of
             (Inl e, w') \<Rightarrow> (Inl e, w')
           | (Inr b, w') \<Rightarrow> (Inr \<lparr>buf_size = sz, buf_dtype = dtype, buf = b\<rparr>, w')))"

text \<open>\<^verbatim>\<open>_copyin\<close> and \<^verbatim>\<open>_copyout\<close>; \<open>x\<close> is the host array.\<close>

definition copyin :: "'v env \<Rightarrow> CL \<Rightarrow> CLBuffer \<Rightarrow> nat \<Rightarrow> 'v world \<Rightarrow> (error + unit) \<times> 'v world" where
  "copyin env cl self x w =
     (if prefix ''image'' (name (buf_dtype self))
      then (Inl (AssertionError (cant_copyin (buf_dtype self))), w)
      else (case native env (cl_enqueue_copy (cl_queue cl) (DeviceMem (buf self)) (HostArray x) False) w of
              (Inl e, w') \<Rightarrow> (Inl e, w')
            | (Inr _, w') \<Rightarrow> (Inr (), w')))"

definition copyout :: "'v env \<Rightarrow> CL \<Rightarrow> CLBuffer \<Rightarrow> nat \<Rightarrow> 'v world \<Rightarrow> (error + unit) \<times> 'v world" where
  "copyout env cl self x w =
     (if prefix ''image'' (name (buf_dtype self))
      then (Inl (AssertionError (cant_copyout (buf_dtype self))), w)
      else (case native env (cl_enqueue_copy (cl_queue cl) (HostArray x) (DeviceMem (buf self)) True) w of
              (Inl e, w') \<Rightarrow> (Inl e, w')
            | (Inr _, w') \<Rightarrow> (Inr (), w')))"

subsection \<open>\<^verbatim>\<open>CLProgram\<close>\<close>

text \<open>The fields are \<^verbatim>\<open>name\<close>, \<^verbatim>\<open>argdtypes\<close>, \<^verbatim>\<open>clprogram\<close>, \<^verbatim>\<open>_clprg\<close> and \<^verbatim>\<open>clprg\<close>.\<close>

record CLProgram =
  prg_name :: string
  argdtypes :: "np_dtype option list option"
  clprogram :: nat
  clprg_built :: nat
  clprg :: cl_kernel

text \<open>Lines 51 to 58, run when \<^verbatim>\<open>DEBUG >= 5 and not OSX\<close>: print or disassemble the binary.\<close>

definition dump_binary :: "'v env \<Rightarrow> CL \<Rightarrow> nat \<Rightarrow> 'v world \<Rightarrow> (error + unit) \<times> 'v world" where
  "dump_binary env cl p w =
     (case native env (cl_get_info_BINARIES p) w of
        (Inl e, w1) \<Rightarrow> (Inl e, w1)
      | (Inr _, w1) \<Rightarrow>
          (case getitem (BINARIES env (trace w) p) 0 of
             Inl e \<Rightarrow> (Inl e, w1)
           | Inr binary \<Rightarrow>
               (case getitem (devices (cl_ctx cl)) 0 of
                  Inl e \<Rightarrow> (Inl e, w1)
                | Inr d \<Rightarrow>
                    if sublist ''Adreno'' (device_name d)
                    then (case disasm env binary of
                            Inl e \<Rightarrow> (Inl e, w1)
                          | Inr out \<Rightarrow> (Inr (), w1\<lparr>stdout := stdout w1 @ out\<rparr>))
                    else (case decode_utf8 env binary of
                            None \<Rightarrow> (Inl UnicodeDecodeError, w1)
                          | Some txt \<Rightarrow> (Inr (), print (print_text txt) w1)))))"

text \<open>
  \<^verbatim>\<open>CLProgram.__init__\<close>. \<^verbatim>\<open>except cl.RuntimeError\<close> catches that class of the binding's
  errors only; the handler prints when \<^verbatim>\<open>DEBUG >= 3\<close> and raises the error it caught.
\<close>

definition CLProgram_init ::
    "'v env \<Rightarrow> CL \<Rightarrow> string \<Rightarrow> string \<Rightarrow> bool \<Rightarrow> np_dtype option list option \<Rightarrow> 'v world
       \<Rightarrow> (error + CLProgram) \<times> 'v world" where
  "CLProgram_init env cl nm prg binary argdts w =
     (case native env (cl_Program (context_handle (cl_ctx cl))
                         (if binary then Binary (devices (cl_ctx cl)) [prg] else Source prg)) w of
        (Inl e, w1) \<Rightarrow> (Inl e, w1)
      | (Inr p, w1) \<Rightarrow>
          (case native env (cl_build p) w1 of
             (Inl e, w2) \<Rightarrow>
               (case e of
                  CLError RuntimeError msg \<Rightarrow>
                    (Inl e, if 3 \<le> DEBUG env then print (print_FAILED_TO_BUILD prg) w2 else w2)
                | _ \<Rightarrow> (Inl e, w2))
           | (Inr built, w2) \<Rightarrow>
               (case native env (cl_getattr built nm) w2 of
                  (Inl e, w3) \<Rightarrow> (Inl e, w3)
                | (Inr k, w3) \<Rightarrow>
                    (case (if 5 \<le> DEBUG env \<and> \<not> OSX env then dump_binary env cl p w3
                           else (Inr (), w3)) of
                       (Inl e, w4) \<Rightarrow> (Inl e, w4)
                     | (Inr _, w4) \<Rightarrow>
                         (case argdts of
                            None \<Rightarrow>
                              (Inr \<lparr>prg_name = nm, argdtypes = argdts, clprogram = p,
                                    clprg_built = built,
                                    clprg = \<lparr>kernel_handle = k, scalar_arg_dtypes = None\<rparr>\<rparr>, w4)
                          | Some ts \<Rightarrow>
                              (case native env (cl_set_scalar_arg_dtypes k ts) w4 of
                                 (Inl e, w5) \<Rightarrow> (Inl e, w5)
                               | (Inr _, w5) \<Rightarrow>
                                   (Inr \<lparr>prg_name = nm, argdtypes = argdts, clprogram = p,
                                         clprg_built = built,
                                         clprg = \<lparr>kernel_handle = k,
                                                  scalar_arg_dtypes = Some ts\<rparr>\<rparr>, w5)))))))"

subsection \<open>Launching a kernel: \<^verbatim>\<open>CLProgram.__call__\<close>\<close>

text \<open>
  The duration is a Python float. Its arithmetic is IEEE double arithmetic of the host,
  which is not modelled: the operations the module uses are parameters. \<open>float_lit m e\<close>
  is the literal of value \<open>m \<sqdot> 10\<^sup>e\<close>, \<open>int_truediv\<close> is \<^verbatim>\<open>/\<close> on two integers,
  \<open>float_of_int\<close> the conversion Python applies to the integer operand of a mixed product.
\<close>

record 'f float_ops =
  float_of_int :: "int \<Rightarrow> 'f"
  int_truediv :: "int \<Rightarrow> int \<Rightarrow> 'f"
  fmul :: "'f \<Rightarrow> 'f \<Rightarrow> 'f"
  float_lit :: "int \<Rightarrow> int \<Rightarrow> 'f"

definition OSX_TIMING_RATIO :: "'f float_ops \<Rightarrow> 'v env \<Rightarrow> 'f" where
  "OSX_TIMING_RATIO fl env = (if OSX env then int_truediv fl 125 3 else float_lit fl 1 0)"

text \<open>An argument of a launch: an instance of \<^verbatim>\<open>CLBuffer\<close>, or anything else.\<close>

datatype 'v launch_arg = CLBuffer_arg CLBuffer | Other 'v

fun resolve :: "'v launch_arg \<Rightarrow> 'v cl_arg" where
  "resolve (CLBuffer_arg x) = Mem (buf x)"
| "resolve (Other x) = Raw x"

text \<open>
  The profiling timestamps are unsigned 64-bit counters of the device; Python reads them
  as integers, so their difference does not wrap. \<^verbatim>\<open>e.profile.end\<close> is read first.
\<close>

definition CLProgram_call ::
    "'f float_ops \<Rightarrow> 'v env \<Rightarrow> CL \<Rightarrow> CLProgram \<Rightarrow> int list \<Rightarrow> int list option
       \<Rightarrow> 'v launch_arg list \<Rightarrow> bool \<Rightarrow> 'v world \<Rightarrow> (error + 'f option) \<times> 'v world" where
  "CLProgram_call fl env cl self global_size local_size bufs wait w =
     (case native env (cl_call_kernel (clprg self) (cl_queue cl) global_size local_size
                         (map resolve bufs)) w of
        (Inl er, w1) \<Rightarrow> (Inl er, w1)
      | (Inr e, w1) \<Rightarrow>
          if wait
          then (case native env (cl_finish (cl_queue cl)) w1 of
                  (Inl er, w2) \<Rightarrow> (Inl er, w2)
                | (Inr _, w2) \<Rightarrow>
                    (case native env (cl_profile e profile_end) w2 of
                       (Inl er, w3) \<Rightarrow> (Inl er, w3)
                     | (Inr _, w3) \<Rightarrow>
                         (case native env (cl_profile e profile_start) w3 of
                            (Inl er, w4) \<Rightarrow> (Inl er, w4)
                          | (Inr _, w4) \<Rightarrow>
                              (Inr (Some (fmul fl
                                     (fmul fl
                                        (float_of_int fl
                                           (uint (profile env (trace w2) e profile_end)
                                            - uint (profile env (trace w2) e profile_start)))
                                        (OSX_TIMING_RATIO fl env))
                                     (float_lit fl 1 (- 9)))), w4))))
          else (Inr None, w1))"

subsection \<open>Sample inputs\<close>

text \<open>
  A host with one platform and one GPU, a binding that refuses nothing, and the world
  after the module was imported there. \<open>exact_floats\<close> computes without rounding; it
  is used to run a launch on concrete timestamps.
\<close>

definition dev0 :: cl_device where
  "dev0 = \<lparr>device_name = ''gpu0''\<rparr>"

definition env0 :: "int env" where
  "env0 = \<lparr>OSX = False, DEBUG = 0, CL_DEVICE = None,
            get_platforms = Inr [\<lparr>gpu_devices = Inr [dev0], cpu_devices = Inr []\<rparr>],
            refuses = (\<lambda>h c. None),
            BINARIES = (\<lambda>h p. []),
            profile = (\<lambda>h e i. case i of profile_start \<Rightarrow> 1000 | profile_end \<Rightarrow> 4000),
            decode_utf8 = Some,
            disasm = (\<lambda>b. Inr [])\<rparr>"

definition CL0 :: CL where
  "CL0 = \<lparr>cl_ctx = \<lparr>context_handle = 0, devices = [dev0]\<rparr>, cl_queue = 1\<rparr>"

definition w0 :: "int world" where
  "w0 = \<lparr>trace = [cl_Context [dev0], cl_CommandQueue 0 PROFILING_ENABLE], stdout = []\<rparr>"

definition exact_floats :: "rat float_ops" where
  "exact_floats =
     \<lparr>float_of_int = of_int,
      int_truediv = (\<lambda>a b. of_int a / of_int b),
      fmul = (*),
      float_lit = (\<lambda>m e. if 0 \<le> e then of_int m * 10 ^ nat e else of_int m / 10 ^ nat (- e))\<rparr>"

text \<open>Hosts without a GPU, without any device, and a host running macOS.\<close>

definition cpu0 :: cl_device where
  "cpu0 = \<lparr>device_name = ''cpu0''\<rparr>"

definition env_cpu_only :: "int env" where
  "env_cpu_only =
     env0\<lparr>get_platforms := Inr [\<lparr>gpu_devices = Inr [], cpu_devices = Inr [cpu0]\<rparr>]\<rparr>"

definition env_no_device :: "int env" where
  "env_no_device =
     env0\<lparr>get_platforms := Inr [\<lparr>gpu_devices = Inr [], cpu_devices = Inr []\<rparr>]\<rparr>"

definition env_osx :: "int env" where
  "env_osx = env0\<lparr>OSX := True\<rparr>"

text \<open>
  A binding whose compiler rejects every program with the same message, at the
  diagnostics level where the module reports a failed build.
\<close>

definition env_bad_build :: "int env" where
  "env_bad_build =
     env0\<lparr>DEBUG := 3,
          refuses := (\<lambda>h c. case c of cl_build p \<Rightarrow> Some (RuntimeError, ''build failed'')
                                   | _ \<Rightarrow> None)\<rparr>"

text \<open>A host whose one platform has a GPU and raises when asked for its CPU devices.\<close>

definition env_cpu_raises :: "int env" where
  "env_cpu_raises =
     env0\<lparr>get_platforms :=
            Inr [\<lparr>gpu_devices = Inr [dev0], cpu_devices = Inl (RuntimeError, ''no cpu'')\<rparr>]\<rparr>"

text \<open>
  A linear buffer of four floats allocated on the sample host, a program compiled after
  it with a fixed scalar signature, and the worlds in between.
\<close>

definition buf0 :: CLBuffer where
  "buf0 = \<lparr>buf_size = 4, buf_dtype = \<lparr>itemsize = 4, name = ''float'', shape = None\<rparr>, buf = 2\<rparr>"

definition w_buf :: "int world" where
  "w_buf = \<lparr>trace = [cl_Context [dev0], cl_CommandQueue 0 PROFILING_ENABLE,
                      cl_Buffer 0 READ_WRITE 16],
             stdout = []\<rparr>"

definition src0 :: string where
  "src0 = ''__kernel void k(__global float *a, int n) { a[0] = n; }''"

definition prg0 :: CLProgram where
  "prg0 = \<lparr>prg_name = ''k'', argdtypes = Some [None, Some np_int32], clprogram = 3,
            clprg_built = 4,
            clprg = \<lparr>kernel_handle = 5, scalar_arg_dtypes = Some [None, Some np_int32]\<rparr>\<rparr>"

definition w1 :: "int world" where
  "w1 = \<lparr>trace = [cl_Context [dev0], cl_CommandQueue 0 PROFILING_ENABLE,
                   cl_Buffer 0 READ_WRITE 16,
                   cl_Program 0 (Source src0), cl_build 3, cl_getattr 4 ''k'',
                   cl_set_scalar_arg_dtypes 5 [None, Some np_int32]],
          stdout = []\<rparr>"



section \<open>Properties\<close>

subsection \<open>Calls and indexing\<close>

lemma native_Inr:
  "native env c w = (Inr h, w') \<Longrightarrow>
     h = length (trace w) \<and> w' = w\<lparr>trace := trace w @ [c]\<rparr> \<and> refuses env (trace w) c = None"
  by (auto simp: native_def split: option.splits)

lemma getitem_0: "getitem (a # xs) 0 = Inr a"
  by (simp add: getitem_def)

lemma getitem_1_Inr: "getitem xs 1 = Inr v \<Longrightarrow> \<exists>a rest. xs = a # v # rest"
  by (cases xs; cases "tl xs") (auto simp: getitem_def split: if_splits)

subsection \<open>Allocation\<close>

text \<open>
  C1, as the code has it. For an image dtype with a shape of two entries
  \<open>[rows, cols]\<close> and an item size of 2 or 4, a request with \<open>size \<noteq> rows * cols\<close>
  never yields a buffer. The image is created first, with shape \<open>(cols, rows)\<close>: when
  the binding refuses that call its error is raised and nothing was created; otherwise
  the assertion of line 30 fails, and the trace then holds the image.
\<close>

theorem CLBuffer_init_size_mismatch:
  assumes "shape dtype = Some [rows, cols]"
      and "itemsize dtype = 2 \<or> itemsize dtype = 4"
      and "sz \<noteq> rows * cols"
  shows "CLBuffer_init env cl sz dtype w =
           (case refuses env (trace w)
                   (cl_Image (context_handle (cl_ctx cl)) READ_WRITE
                      (ImageFormat RGBA (if itemsize dtype = 2 then HALF_FLOAT else FLOAT))
                      (cols, rows)) of
              Some (k, msg) \<Rightarrow> (Inl (CLError k msg), w)
            | None \<Rightarrow>
                (Inl (AssertionError (image_size_mismatch sz [rows, cols])),
                 w\<lparr>trace := trace w @
                    [cl_Image (context_handle (cl_ctx cl)) READ_WRITE
                       (ImageFormat RGBA (if itemsize dtype = 2 then HALF_FLOAT else FLOAT))
                       (cols, rows)]\<rparr>))"
  using assms
  by (auto simp: CLBuffer_init_def channel_types_def getitem_def native_def prod_ints_def
           split: option.splits)

theorem CLBuffer_init_size_mismatch_witness:
  "CLBuffer_init env0 CL0 14 \<lparr>itemsize = 4, name = ''imagef'', shape = Some [3, 5]\<rparr> w0 =
     (Inl (AssertionError (image_size_mismatch 14 [3, 5])),
      \<lparr>trace = [cl_Context [dev0], cl_CommandQueue 0 PROFILING_ENABLE,
                cl_Image 0 READ_WRITE (ImageFormat RGBA FLOAT) (5, 3)], stdout = []\<rparr>)"
  using CLBuffer_init_size_mismatch
          [of "\<lparr>itemsize = 4, name = ''imagef'', shape = Some [3, 5]\<rparr>" 3 5 14 env0 CL0 w0]
  by (simp add: env0_def CL0_def w0_def)

text \<open>
  C1 as the spec states it fails: a half-float image dtype of shape \<open>[2, 2]\<close> asked for
  with 5 elements. The construction fails with the assertion error, and the image of
  shape \<open>(2, 2)\<close> has been created by then.
\<close>

theorem CLBuffer_init_size_mismatch_image_created:
  "CLBuffer_init env0 CL0 5 \<lparr>itemsize = 2, name = ''imageh'', shape = Some [2, 2]\<rparr> w0 =
     (Inl (AssertionError (image_size_mismatch 5 [2, 2])),
      \<lparr>trace = [cl_Context [dev0], cl_CommandQueue 0 PROFILING_ENABLE,
                cl_Image 0 READ_WRITE (ImageFormat RGBA HALF_FLOAT) (2, 2)], stdout = []\<rparr>)"
  by (simp add: CLBuffer_init_def channel_types_def getitem_def native_def prod_ints_def
                env0_def CL0_def w0_def)

text \<open>What an allocation that returns has done.\<close>

lemma CLBuffer_init_Inr:
  assumes "CLBuffer_init env cl sz dtype w = (Inr b, w')"
  shows "b = \<lparr>buf_size = sz, buf_dtype = dtype, buf = length (trace w)\<rparr> \<and>
         (case shape dtype of
            Some shp \<Rightarrow>
              (itemsize dtype = 2 \<or> itemsize dtype = 4) \<and> sz = prod_ints shp \<and>
              (\<exists>rows cols rest. shp = rows # cols # rest \<and>
                 trace w' = trace w @
                   [cl_Image (context_handle (cl_ctx cl)) READ_WRITE
                      (ImageFormat RGBA (if itemsize dtype = 2 then HALF_FLOAT else FLOAT))
                      (cols, rows)])
          | None \<Rightarrow>
              trace w' = trace w @
                [cl_Buffer (context_handle (cl_ctx cl)) READ_WRITE (sz * itemsize dtype)])"
proof (cases "shape dtype")
  case None
  with assms show ?thesis
    by (auto simp: CLBuffer_init_def split: prod.splits sum.splits dest!: native_Inr)
next
  case (Some shp)
  from assms Some obtain ct s1 s0 where
    ct: "channel_types (itemsize dtype) = Some ct" and
    s1: "getitem shp 1 = Inr s1" and s0: "getitem shp 0 = Inr s0" and
    img: "native env (cl_Image (context_handle (cl_ctx cl)) READ_WRITE
                        (ImageFormat RGBA ct) (s1, s0)) w = (Inr (buf b), w')" and
    b: "b = \<lparr>buf_size = sz, buf_dtype = dtype, buf = buf b\<rparr>" and
    sz: "sz = prod_ints shp"
    by (auto simp: CLBuffer_init_def split: option.splits sum.splits prod.splits if_splits)
  from s1 obtain a rest where shp: "shp = a # s1 # rest"
    by (auto dest: getitem_1_Inr)
  with s0 have a: "a = s0"
    by (simp add: getitem_0)
  from ct have it: "(itemsize dtype = 2 \<or> itemsize dtype = 4) \<and>
                    ct = (if itemsize dtype = 2 then HALF_FLOAT else FLOAT)"
    by (auto simp: channel_types_def split: if_splits)
  from native_Inr [OF img] b shp a it Some sz show ?thesis
    by auto
qed

text \<open>
  C6. For a dtype that is not an image dtype the allocation is one call, a read/write
  buffer of \<open>size * itemsize\<close> bytes: it returns a buffer holding that handle, or
  raises what the binding raised. For an image dtype of item size 2 or 4 whose shape
  starts with \<open>rows, cols\<close> and whose product is the size, it is one call, an RGBA image
  of shape \<open>(cols, rows)\<close> with half-float channels for item size 2 and float channels
  for item size 4. Conversely every allocation that returns a buffer is one of these two.
\<close>

theorem CLBuffer_init_backing_store:
  "(shape dtype = None \<longrightarrow>
      CLBuffer_init env cl sz dtype w =
        (case refuses env (trace w)
                (cl_Buffer (context_handle (cl_ctx cl)) READ_WRITE (sz * itemsize dtype)) of
           Some (k, msg) \<Rightarrow> (Inl (CLError k msg), w)
         | None \<Rightarrow>
             (Inr \<lparr>buf_size = sz, buf_dtype = dtype, buf = length (trace w)\<rparr>,
              w\<lparr>trace := trace w @
                 [cl_Buffer (context_handle (cl_ctx cl)) READ_WRITE (sz * itemsize dtype)]\<rparr>)))
   \<and> (\<forall>rows cols rest.
         shape dtype = Some (rows # cols # rest) \<and> (itemsize dtype = 2 \<or> itemsize dtype = 4) \<and>
         sz = prod_ints (rows # cols # rest) \<longrightarrow>
         CLBuffer_init env cl sz dtype w =
           (case refuses env (trace w)
                   (cl_Image (context_handle (cl_ctx cl)) READ_WRITE
                      (ImageFormat RGBA (if itemsize dtype = 2 then HALF_FLOAT else FLOAT))
                      (cols, rows)) of
              Some (k, msg) \<Rightarrow> (Inl (CLError k msg), w)
            | None \<Rightarrow>
                (Inr \<lparr>buf_size = sz, buf_dtype = dtype, buf = length (trace w)\<rparr>,
                 w\<lparr>trace := trace w @
                    [cl_Image (context_handle (cl_ctx cl)) READ_WRITE
                       (ImageFormat RGBA (if itemsize dtype = 2 then HALF_FLOAT else FLOAT))
                       (cols, rows)]\<rparr>)))
   \<and> (\<forall>b w'. CLBuffer_init env cl sz dtype w = (Inr b, w') \<longrightarrow>
         b = \<lparr>buf_size = sz, buf_dtype = dtype, buf = length (trace w)\<rparr> \<and>
         (case shape dtype of
            Some shp \<Rightarrow>
              (itemsize dtype = 2 \<or> itemsize dtype = 4) \<and> sz = prod_ints shp \<and>
              (\<exists>rows cols rest. shp = rows # cols # rest \<and>
                 trace w' = trace w @
                   [cl_Image (context_handle (cl_ctx cl)) READ_WRITE
                      (ImageFormat RGBA (if itemsize dtype = 2 then HALF_FLOAT else FLOAT))
                      (cols, rows)])
          | None \<Rightarrow>
              trace w' = trace w @
                [cl_Buffer (context_handle (cl_ctx cl)) READ_WRITE (sz * itemsize dtype)]))"
proof (intro conjI)
  show "shape dtype = None \<longrightarrow>
      CLBuffer_init env cl sz dtype w =
        (case refuses env (trace w)
                (cl_Buffer (context_handle (cl_ctx cl)) READ_WRITE (sz * itemsize dtype)) of
           Some (k, msg) \<Rightarrow> (Inl (CLError k msg), w)
         | None \<Rightarrow>
             (Inr \<lparr>buf_size = sz, buf_dtype = dtype, buf = length (trace w)\<rparr>,
              w\<lparr>trace := trace w @
                 [cl_Buffer (context_handle (cl_ctx cl)) READ_WRITE (sz * itemsize dtype)]\<rparr>))"
    by (simp add: CLBuffer_init_def native_def split: option.splits)
  show "\<forall>rows cols rest.
         shape dtype = Some (rows # cols # rest) \<and> (itemsize dtype = 2 \<or> itemsize dtype = 4) \<and>
         sz = prod_ints (rows # cols # rest) \<longrightarrow>
         CLBuffer_init env cl sz dtype w =
           (case refuses env (trace w)
                   (cl_Image (context_handle (cl_ctx cl)) READ_WRITE
                      (ImageFormat RGBA (if itemsize dtype = 2 then HALF_FLOAT else FLOAT))
                      (cols, rows)) of
              Some (k, msg) \<Rightarrow> (Inl (CLError k msg), w)
            | None \<Rightarrow>
                (Inr \<lparr>buf_size = sz, buf_dtype = dtype, buf = length (trace w)\<rparr>,
                 w\<lparr>trace := trace w @
                    [cl_Image (context_handle (cl_ctx cl)) READ_WRITE
                       (ImageFormat RGBA (if itemsize dtype = 2 then HALF_FLOAT else FLOAT))
                       (cols, rows)]\<rparr>))"
    by (auto simp: CLBuffer_init_def channel_types_def getitem_def native_def split: option.splits)
  show "\<forall>b w'. CLBuffer_init env cl sz dtype w = (Inr b, w') \<longrightarrow>
         b = \<lparr>buf_size = sz, buf_dtype = dtype, buf = length (trace w)\<rparr> \<and>
         (case shape dtype of
            Some shp \<Rightarrow>
              (itemsize dtype = 2 \<or> itemsize dtype = 4) \<and> sz = prod_ints shp \<and>
              (\<exists>rows cols rest. shp = rows # cols # rest \<and>
                 trace w' = trace w @
                   [cl_Image (context_handle (cl_ctx cl)) READ_WRITE
                      (ImageFormat RGBA (if itemsize dtype = 2 then HALF_FLOAT else FLOAT))
                      (cols, rows)])
          | None \<Rightarrow>
              trace w' = trace w @
                [cl_Buffer (context_handle (cl_ctx cl)) READ_WRITE (sz * itemsize dtype)])"
    by (intro allI impI) (rule CLBuffer_init_Inr)
qed

theorem CLBuffer_init_backing_store_witness:
  "CLBuffer_init env0 CL0 1024 \<lparr>itemsize = 4, name = ''float'', shape = None\<rparr> w0 =
     (Inr \<lparr>buf_size = 1024, buf_dtype = \<lparr>itemsize = 4, name = ''float'', shape = None\<rparr>, buf = 2\<rparr>,
      \<lparr>trace = [cl_Context [dev0], cl_CommandQueue 0 PROFILING_ENABLE,
                cl_Buffer 0 READ_WRITE 4096], stdout = []\<rparr>)
   \<and> CLBuffer_init env0 CL0 6 \<lparr>itemsize = 2, name = ''imageh'', shape = Some [2, 3]\<rparr> w0 =
     (Inr \<lparr>buf_size = 6, buf_dtype = \<lparr>itemsize = 2, name = ''imageh'', shape = Some [2, 3]\<rparr>, buf = 2\<rparr>,
      \<lparr>trace = [cl_Context [dev0], cl_CommandQueue 0 PROFILING_ENABLE,
                cl_Image 0 READ_WRITE (ImageFormat RGBA HALF_FLOAT) (3, 2)], stdout = []\<rparr>)
   \<and> CLBuffer_init env0 CL0 24 \<lparr>itemsize = 4, name = ''imagef'', shape = Some [2, 3, 4]\<rparr> w0 =
     (Inr \<lparr>buf_size = 24, buf_dtype = \<lparr>itemsize = 4, name = ''imagef'', shape = Some [2, 3, 4]\<rparr>, buf = 2\<rparr>,
      \<lparr>trace = [cl_Context [dev0], cl_CommandQueue 0 PROFILING_ENABLE,
                cl_Image 0 READ_WRITE (ImageFormat RGBA FLOAT) (3, 2)], stdout = []\<rparr>)"
proof -
  note lin = CLBuffer_init_backing_store
      [of "\<lparr>itemsize = 4, name = ''float'', shape = None\<rparr>" env0 CL0 1024 w0, THEN conjunct1, rule_format]
  note imh = CLBuffer_init_backing_store
      [of "\<lparr>itemsize = 2, name = ''imageh'', shape = Some [2, 3]\<rparr>" env0 CL0 6 w0,
       THEN conjunct2, THEN conjunct1, rule_format, of 2 3 "[]"]
  note imf = CLBuffer_init_backing_store
      [of "\<lparr>itemsize = 4, name = ''imagef'', shape = Some [2, 3, 4]\<rparr>" env0 CL0 24 w0,
       THEN conjunct2, THEN conjunct1, rule_format, of 2 3 "[4]"]
  from lin imh imf show ?thesis
    by (simp add: env0_def CL0_def w0_def prod_ints_def)
qed

text \<open>
  C9. An image dtype whose item size is neither 2 nor 4 fails at the dictionary lookup of
  line 28 with a key error, and the world is as before: no call was made. The dictionary
  has exactly the keys 2 and 4.
\<close>

theorem CLBuffer_init_bad_itemsize:
  assumes "shape dtype = Some shp" and "itemsize dtype \<noteq> 2" and "itemsize dtype \<noteq> 4"
  shows "CLBuffer_init env cl sz dtype w = (Inl (KeyError (itemsize dtype)), w)
         \<and> dom channel_types = {2, 4}"
  using assms by (auto simp: CLBuffer_init_def channel_types_def split: if_splits)

theorem CLBuffer_init_bad_itemsize_witness:
  "CLBuffer_init env0 CL0 4 \<lparr>itemsize = 1, name = ''imageb'', shape = Some [2, 2]\<rparr> w0 =
     (Inl (KeyError 1), w0)
   \<and> dom channel_types = {2, 4}"
  using CLBuffer_init_bad_itemsize
          [of "\<lparr>itemsize = 1, name = ''imageb'', shape = Some [2, 2]\<rparr>" "[2, 2]" env0 CL0 4 w0]
  by simp

subsection \<open>Host transfers\<close>

lemma copy_rejected_iff:
  "(\<exists>m. fst (copyin env cl self x w) = Inl (AssertionError m)) =
     prefix ''image'' (name (buf_dtype self))"
  "(\<exists>m. fst (copyout env cl self x w) = Inl (AssertionError m)) =
     prefix ''image'' (name (buf_dtype self))"
  by (auto simp: copyin_def copyout_def native_def split: option.splits)

text \<open>
  What both transfers do, by the name of the dtype: rejected when it starts with
  \<^verbatim>\<open>image\<close>, enqueued otherwise when the binding accepts the call.
\<close>

lemma copy_by_name:
  "(prefix ''image'' (name (buf_dtype self)) \<longrightarrow>
      copyin env cl self x w = (Inl (AssertionError (cant_copyin (buf_dtype self))), w) \<and>
      copyout env cl self x w = (Inl (AssertionError (cant_copyout (buf_dtype self))), w)) \<and>
   (\<not> prefix ''image'' (name (buf_dtype self)) \<longrightarrow>
      (refuses env (trace w)
         (cl_enqueue_copy (cl_queue cl) (DeviceMem (buf self)) (HostArray x) False) = None \<longrightarrow>
       copyin env cl self x w =
         (Inr (), w\<lparr>trace := trace w @
            [cl_enqueue_copy (cl_queue cl) (DeviceMem (buf self)) (HostArray x) False]\<rparr>)) \<and>
      (refuses env (trace w)
         (cl_enqueue_copy (cl_queue cl) (HostArray x) (DeviceMem (buf self)) True) = None \<longrightarrow>
       copyout env cl self x w =
         (Inr (), w\<lparr>trace := trace w @
            [cl_enqueue_copy (cl_queue cl) (HostArray x) (DeviceMem (buf self)) True]\<rparr>)))"
  by (simp add: copyin_def copyout_def native_def)

text \<open>
  C3. The claim has every transfer on a buffer that is not image-backed enqueued. The code
  departs from it on a dtype named \<^verbatim>\<open>image_index\<close> that is not an image dtype: the
  allocation of four elements of four bytes is a linear buffer of 16 bytes, and both
  \<^verbatim>\<open>_copyin\<close> and \<^verbatim>\<open>_copyout\<close> on it fail with the assertion error meant for images and
  enqueue nothing.
\<close>

theorem copy_linear_buffer_named_image_rejected:
  "CLBuffer_init env0 CL0 4 \<lparr>itemsize = 4, name = ''image_index'', shape = None\<rparr> w0 =
     (Inr \<lparr>buf_size = 4, buf_dtype = \<lparr>itemsize = 4, name = ''image_index'', shape = None\<rparr>, buf = 2\<rparr>,
      \<lparr>trace = [cl_Context [dev0], cl_CommandQueue 0 PROFILING_ENABLE,
                cl_Buffer 0 READ_WRITE 16], stdout = []\<rparr>)
   \<and> copyin env0 CL0
        \<lparr>buf_size = 4, buf_dtype = \<lparr>itemsize = 4, name = ''image_index'', shape = None\<rparr>, buf = 2\<rparr> 7
        \<lparr>trace = [cl_Context [dev0], cl_CommandQueue 0 PROFILING_ENABLE,
                  cl_Buffer 0 READ_WRITE 16], stdout = []\<rparr> =
     (Inl (AssertionError (cant_copyin \<lparr>itemsize = 4, name = ''image_index'', shape = None\<rparr>)),
      \<lparr>trace = [cl_Context [dev0], cl_CommandQueue 0 PROFILING_ENABLE,
                cl_Buffer 0 READ_WRITE 16], stdout = []\<rparr>)
   \<and> copyout env0 CL0
        \<lparr>buf_size = 4, buf_dtype = \<lparr>itemsize = 4, name = ''image_index'', shape = None\<rparr>, buf = 2\<rparr> 7
        \<lparr>trace = [cl_Context [dev0], cl_CommandQueue 0 PROFILING_ENABLE,
                  cl_Buffer 0 READ_WRITE 16], stdout = []\<rparr> =
     (Inl (AssertionError (cant_copyout \<lparr>itemsize = 4, name = ''image_index'', shape = None\<rparr>)),
      \<lparr>trace = [cl_Context [dev0], cl_CommandQueue 0 PROFILING_ENABLE,
                cl_Buffer 0 READ_WRITE 16], stdout = []\<rparr>)"
  by (simp add: CLBuffer_init_def native_def copyin_def copyout_def env0_def CL0_def w0_def)

text \<open>
  C10. Allocation tests the class of the dtype, the transfers test its name. Each transfer
  fails with its assertion error exactly when the name starts with \<^verbatim>\<open>image\<close>. So a dtype
  that is not an image dtype and whose name starts with \<^verbatim>\<open>image\<close> is given a linear
  buffer (when the binding does not refuse it), and every \<^verbatim>\<open>_copyin\<close> and \<^verbatim>\<open>_copyout\<close> on
  that buffer is rejected, in any world and for any host array.
\<close>

theorem copy_rejects_image_named_linear_buffer:
  assumes "shape dtype = None" and "prefix ''image'' (name dtype)"
      and "refuses env (trace w)
             (cl_Buffer (context_handle (cl_ctx cl)) READ_WRITE (sz * itemsize dtype)) = None"
  shows "CLBuffer_init env cl sz dtype w =
           (Inr \<lparr>buf_size = sz, buf_dtype = dtype, buf = length (trace w)\<rparr>,
            w\<lparr>trace := trace w @
               [cl_Buffer (context_handle (cl_ctx cl)) READ_WRITE (sz * itemsize dtype)]\<rparr>)
         \<and> (\<forall>x v. copyin env cl \<lparr>buf_size = sz, buf_dtype = dtype, buf = length (trace w)\<rparr> x v =
                     (Inl (AssertionError (cant_copyin dtype)), v)
                 \<and> copyout env cl \<lparr>buf_size = sz, buf_dtype = dtype, buf = length (trace w)\<rparr> x v =
                     (Inl (AssertionError (cant_copyout dtype)), v))
         \<and> (\<forall>self x v.
               (\<exists>m. fst (copyin env cl self x v) = Inl (AssertionError m)) =
                 prefix ''image'' (name (buf_dtype self))
             \<and> (\<exists>m. fst (copyout env cl self x v) = Inl (AssertionError m)) =
                 prefix ''image'' (name (buf_dtype self)))"
proof -
  from assms have "CLBuffer_init env cl sz dtype w =
           (Inr \<lparr>buf_size = sz, buf_dtype = dtype, buf = length (trace w)\<rparr>,
            w\<lparr>trace := trace w @
               [cl_Buffer (context_handle (cl_ctx cl)) READ_WRITE (sz * itemsize dtype)]\<rparr>)"
    by (simp add: CLBuffer_init_def native_def)
  moreover from assms
  have "\<forall>x v. copyin env cl \<lparr>buf_size = sz, buf_dtype = dtype, buf = length (trace w)\<rparr> x v =
                     (Inl (AssertionError (cant_copyin dtype)), v)
                 \<and> copyout env cl \<lparr>buf_size = sz, buf_dtype = dtype, buf = length (trace w)\<rparr> x v =
                     (Inl (AssertionError (cant_copyout dtype)), v)"
    by (simp add: copyin_def copyout_def)
  ultimately show ?thesis
    by (simp only: copy_rejected_iff simp_thms)
qed

theorem copy_rejects_image_named_linear_buffer_witness:
  "CLBuffer_init env0 CL0 8 \<lparr>itemsize = 4, name = ''image_ids'', shape = None\<rparr> w0 =
     (Inr \<lparr>buf_size = 8, buf_dtype = \<lparr>itemsize = 4, name = ''image_ids'', shape = None\<rparr>, buf = 2\<rparr>,
      w0\<lparr>trace := trace w0 @ [cl_Buffer 0 READ_WRITE 32]\<rparr>)
   \<and> copyin env0 CL0
       \<lparr>buf_size = 8, buf_dtype = \<lparr>itemsize = 4, name = ''image_ids'', shape = None\<rparr>, buf = 2\<rparr> 9 w0 =
       (Inl (AssertionError (cant_copyin \<lparr>itemsize = 4, name = ''image_ids'', shape = None\<rparr>)), w0)"
proof -
  let ?dt = "\<lparr>itemsize = 4, name = ''image_ids'', shape = None\<rparr>"
  have h1: "shape ?dt = None" and h2: "prefix ''image'' (name ?dt)"
    by simp_all
  have h3: "refuses env0 (trace w0)
              (cl_Buffer (context_handle (cl_ctx CL0)) READ_WRITE (8 * itemsize ?dt)) = None"
    by (simp add: env0_def)
  note r = copy_rejects_image_named_linear_buffer [OF h1 h2 h3]
  from r [THEN conjunct1] r [THEN conjunct2, THEN conjunct1, rule_format, of 9 w0, THEN conjunct1]
  show ?thesis
    by (simp add: CL0_def w0_def numeral_2_eq_2)
qed

subsection \<open>The device context\<close>

lemma getitem_Nil: "getitem [] i = Inl IndexError"
  by (auto simp: getitem_def)

text \<open>What a construction that returns has done, and the construction without any device.\<close>

lemma each_get_devices_Inr:
  "each_get_devices t ps = Inr dss \<Longrightarrow> map (\<lambda>p. get_devices p t) ps = map Inr dss"
  by (induction ps arbitrary: dss) (auto split: sum.splits prod.splits)

lemma sum_get_devices_Inr:
  "sum_get_devices env t = Inr ds \<Longrightarrow>
     \<exists>ps dss. get_platforms env = Inr ps \<and> map (\<lambda>p. get_devices p t) ps = map Inr dss \<and>
              ds = concat dss"
  by (auto simp: sum_get_devices_def split: sum.splits prod.splits dest: each_get_devices_Inr)

lemma CL_init_Inr:
  assumes "CL_init env w = (Inr cl, w')"
  shows "\<exists>gpus devs d.
           sum_get_devices env GPU = Inr gpus \<and>
           (if gpus = [] then sum_get_devices env CPU = Inr devs else devs = gpus) \<and>
           getitem devs (getenv (CL_DEVICE env) 0) = Inr d \<and>
           cl = \<lparr>cl_ctx = \<lparr>context_handle = length (trace w), devices = [d]\<rparr>,
                 cl_queue = Suc (length (trace w))\<rparr> \<and>
           trace w' = trace w @ [cl_Context [d], cl_CommandQueue (length (trace w)) PROFILING_ENABLE]"
  using assms
  by (auto simp: CL_init_def print_def split: sum.splits prod.splits if_splits dest!: native_Inr)

lemma CL_init_no_device:
  assumes "sum_get_devices env GPU = Inr []" and "sum_get_devices env CPU = Inr []"
  shows "CL_init env w = (Inl IndexError, w)"
  using assms by (simp add: CL_init_def getitem_Nil)

text \<open>The construction in terms of the two enumerations.\<close>

lemma each_get_devices_eq:
  "map (\<lambda>p. get_devices p t) ps = map Inr dss \<Longrightarrow> each_get_devices t ps = Inr dss"
  by (induction ps arbitrary: dss) auto

lemma sum_get_devices_eq:
  assumes "get_platforms env = Inr ps" and "map (\<lambda>p. get_devices p t) ps = map Inr dss"
  shows "sum_get_devices env t = Inr (concat dss)"
  using assms by (simp add: sum_get_devices_def each_get_devices_eq)

lemma CL_init_devices:
  assumes g: "sum_get_devices env GPU = Inr gpus"
      and c: "gpus = [] \<longrightarrow> sum_get_devices env CPU = Inr cpus"
  shows "CL_init env w =
     (case getitem (if gpus = [] then cpus else gpus) (getenv (CL_DEVICE env) 0) of
        Inl e \<Rightarrow> (Inl e, w)
      | Inr d \<Rightarrow>
          (case native env (cl_Context [d])
                  (if 1 < length (if gpus = [] then cpus else gpus) \<or> 1 \<le> DEBUG env
                   then print (print_using d) w else w) of
             (Inl e, w2) \<Rightarrow> (Inl e, w2)
           | (Inr ctx, w2) \<Rightarrow>
               (case native env (cl_CommandQueue ctx PROFILING_ENABLE) w2 of
                  (Inl e, w3) \<Rightarrow> (Inl e, w3)
                | (Inr q, w3) \<Rightarrow>
                    (Inr \<lparr>cl_ctx = \<lparr>context_handle = ctx, devices = [d]\<rparr>, cl_queue = q\<rparr>, w3))))"
  using g c by (cases "gpus = []") (auto simp: CL_init_def split: sum.splits)

text \<open>
  C5. Let every platform answer the GPU enumeration, with the lists \<open>gss\<close>, and, when
  these hold no device at all, the CPU enumeration, with the lists \<open>css\<close>. The
  candidates are then the GPU devices of all platforms in platform order when there is
  one, and the CPU devices of all platforms otherwise; with a GPU device present the
  platforms are not asked for CPU devices at all. \<^verbatim>\<open>_CL()\<close> indexes the candidates at
  \<^verbatim>\<open>getenv("CL_DEVICE", 0)\<close> (index 0 when the variable is not set) and raises the
  index error without making a call when the index is out of range; otherwise it creates
  the context on that one device and then the queue on that context, and returns them
  unless the binding refuses one of the two calls. It prints the line naming the device
  first when there are several candidates or \<^verbatim>\<open>DEBUG >= 1\<close>. With no device in either
  enumeration the construction raises the index error and makes no call.
\<close>

theorem CL_init_device_selection:
  assumes "get_platforms env = Inr ps"
      and "map gpu_devices ps = map Inr gss"
      and "concat gss = [] \<longrightarrow> map cpu_devices ps = map Inr css"
  shows "CL_init env w =
     (case getitem (if concat gss = [] then concat css else concat gss)
             (case CL_DEVICE env of None \<Rightarrow> 0 | Some i \<Rightarrow> i) of
        Inl e \<Rightarrow> (Inl e, w)
      | Inr d \<Rightarrow>
          (case refuses env (trace w) (cl_Context [d]) of
             Some (k, msg) \<Rightarrow>
               (Inl (CLError k msg),
                w\<lparr>stdout := stdout w @
                     (if 1 < length (if concat gss = [] then concat css else concat gss)
                         \<or> 1 \<le> DEBUG env
                      then [print_using d] else [])\<rparr>)
           | None \<Rightarrow>
               (case refuses env (trace w @ [cl_Context [d]])
                       (cl_CommandQueue (length (trace w)) PROFILING_ENABLE) of
                  Some (k, msg) \<Rightarrow>
                    (Inl (CLError k msg),
                     w\<lparr>trace := trace w @ [cl_Context [d]],
                       stdout := stdout w @
                         (if 1 < length (if concat gss = [] then concat css else concat gss)
                             \<or> 1 \<le> DEBUG env
                          then [print_using d] else [])\<rparr>)
                | None \<Rightarrow>
                    (Inr \<lparr>cl_ctx = \<lparr>context_handle = length (trace w), devices = [d]\<rparr>,
                          cl_queue = Suc (length (trace w))\<rparr>,
                     w\<lparr>trace := trace w @ [cl_Context [d],
                                            cl_CommandQueue (length (trace w)) PROFILING_ENABLE],
                       stdout := stdout w @
                         (if 1 < length (if concat gss = [] then concat css else concat gss)
                             \<or> 1 \<le> DEBUG env
                          then [print_using d] else [])\<rparr>))))
   \<and> (concat gss = [] \<and> concat css = [] \<longrightarrow> CL_init env w = (Inl IndexError, w))"
proof -
  from assms(1,2) have g: "sum_get_devices env GPU = Inr (concat gss)"
    by (simp add: sum_get_devices_eq)
  from assms(1,3) have c: "concat gss = [] \<longrightarrow> sum_get_devices env CPU = Inr (concat css)"
    by (simp add: sum_get_devices_eq del: concat_eq_Nil_conv)
  note eq = CL_init_devices [OF g c]
  have first: "CL_init env w =
     (case getitem (if concat gss = [] then concat css else concat gss)
             (case CL_DEVICE env of None \<Rightarrow> 0 | Some i \<Rightarrow> i) of
        Inl e \<Rightarrow> (Inl e, w)
      | Inr d \<Rightarrow>
          (case refuses env (trace w) (cl_Context [d]) of
             Some (k, msg) \<Rightarrow>
               (Inl (CLError k msg),
                w\<lparr>stdout := stdout w @
                     (if 1 < length (if concat gss = [] then concat css else concat gss)
                         \<or> 1 \<le> DEBUG env
                      then [print_using d] else [])\<rparr>)
           | None \<Rightarrow>
               (case refuses env (trace w @ [cl_Context [d]])
                       (cl_CommandQueue (length (trace w)) PROFILING_ENABLE) of
                  Some (k, msg) \<Rightarrow>
                    (Inl (CLError k msg),
                     w\<lparr>trace := trace w @ [cl_Context [d]],
                       stdout := stdout w @
                         (if 1 < length (if concat gss = [] then concat css else concat gss)
                             \<or> 1 \<le> DEBUG env
                          then [print_using d] else [])\<rparr>)
                | None \<Rightarrow>
                    (Inr \<lparr>cl_ctx = \<lparr>context_handle = length (trace w), devices = [d]\<rparr>,
                          cl_queue = Suc (length (trace w))\<rparr>,
                     w\<lparr>trace := trace w @ [cl_Context [d],
                                            cl_CommandQueue (length (trace w)) PROFILING_ENABLE],
                       stdout := stdout w @
                         (if 1 < length (if concat gss = [] then concat css else concat gss)
                             \<or> 1 \<le> DEBUG env
                          then [print_using d] else [])\<rparr>))))"
    unfolding eq
    by (simp add: native_def print_def getenv_def del: concat_eq_Nil_conv
             split: sum.splits option.splits)
  have second: "concat gss = [] \<and> concat css = [] \<longrightarrow> CL_init env w = (Inl IndexError, w)"
    unfolding eq by (simp add: getitem_Nil del: concat_eq_Nil_conv)
  from first second show ?thesis
    by (rule conjI)
qed

theorem CL_init_device_selection_witness:
  "CL_init env_cpu_only \<lparr>trace = [], stdout = []\<rparr> =
     (Inr \<lparr>cl_ctx = \<lparr>context_handle = 0, devices = [cpu0]\<rparr>, cl_queue = 1\<rparr>,
      \<lparr>trace = [cl_Context [cpu0], cl_CommandQueue 0 PROFILING_ENABLE], stdout = []\<rparr>)
   \<and> CL_init env_cpu_raises \<lparr>trace = [], stdout = []\<rparr> = (Inr CL0, w0)
   \<and> CL_init env_no_device \<lparr>trace = [], stdout = []\<rparr> =
       (Inl IndexError, \<lparr>trace = [], stdout = []\<rparr>)"
proof -
  have a: "CL_init env_cpu_only \<lparr>trace = [], stdout = []\<rparr> =
     (Inr \<lparr>cl_ctx = \<lparr>context_handle = 0, devices = [cpu0]\<rparr>, cl_queue = 1\<rparr>,
      \<lparr>trace = [cl_Context [cpu0], cl_CommandQueue 0 PROFILING_ENABLE], stdout = []\<rparr>)"
    using CL_init_device_selection
            [of env_cpu_only "[\<lparr>gpu_devices = Inr [], cpu_devices = Inr [cpu0]\<rparr>]" "[[]]" "[[cpu0]]"
                "\<lparr>trace = [], stdout = []\<rparr>", THEN conjunct1]
    by (simp add: env_cpu_only_def env0_def getitem_def)
  have b: "CL_init env_cpu_raises \<lparr>trace = [], stdout = []\<rparr> = (Inr CL0, w0)"
    using CL_init_device_selection
            [of env_cpu_raises
                "[\<lparr>gpu_devices = Inr [dev0], cpu_devices = Inl (RuntimeError, ''no cpu'')\<rparr>]"
                "[[dev0]]" "[]" "\<lparr>trace = [], stdout = []\<rparr>", THEN conjunct1]
    by (simp add: env_cpu_raises_def env0_def getitem_def CL0_def w0_def)
  have c: "CL_init env_no_device \<lparr>trace = [], stdout = []\<rparr> =
       (Inl IndexError, \<lparr>trace = [], stdout = []\<rparr>)"
    using CL_init_device_selection
            [of env_no_device "[\<lparr>gpu_devices = Inr [], cpu_devices = Inr []\<rparr>]" "[[]]" "[[]]"
                "\<lparr>trace = [], stdout = []\<rparr>", THEN conjunct2]
    by (simp add: env_no_device_def env0_def)
  from a b c show ?thesis
    by simp
qed

subsection \<open>Compiling a program\<close>

text \<open>
  C2, as the code has it. When the program object is created and its build is refused
  with an error of class \<open>k\<close> and message \<open>msg\<close>, the construction raises that same
  error and yields no program; no entry point is looked up. It prints one line,
  \<^verbatim>\<open>FAILED TO BUILD\<close> followed by the source (or binary) it was given, when the error is
  a runtime error of the binding and \<^verbatim>\<open>DEBUG >= 3\<close>, and prints nothing otherwise.
\<close>

theorem CLProgram_init_build_failure:
  assumes "refuses env (trace w)
             (cl_Program (context_handle (cl_ctx cl))
                (if binary then Binary (devices (cl_ctx cl)) [prg] else Source prg)) = None"
      and "refuses env
             (trace w @ [cl_Program (context_handle (cl_ctx cl))
                           (if binary then Binary (devices (cl_ctx cl)) [prg] else Source prg)])
             (cl_build (length (trace w))) = Some (k, msg)"
  shows "CLProgram_init env cl nm prg binary argdts w =
           (Inl (CLError k msg),
            w\<lparr>trace := trace w @
                 [cl_Program (context_handle (cl_ctx cl))
                    (if binary then Binary (devices (cl_ctx cl)) [prg] else Source prg)],
              stdout := stdout w @
                 (if k = RuntimeError \<and> 3 \<le> DEBUG env then [print_FAILED_TO_BUILD prg] else [])\<rparr>)"
  using assms
  by (cases k) (simp_all add: CLProgram_init_def native_def print_def)

theorem CLProgram_init_build_failure_witness:
  "CLProgram_init env_bad_build CL0 ''k'' ''__kernel void k( {'' False None w0 =
     (Inl (CLError RuntimeError ''build failed''),
      \<lparr>trace = [cl_Context [dev0], cl_CommandQueue 0 PROFILING_ENABLE,
                cl_Program 0 (Source ''__kernel void k( {'')],
       stdout = [print_FAILED_TO_BUILD ''__kernel void k( {'']\<rparr>)"
proof -
  have h1: "refuses env_bad_build (trace w0)
             (cl_Program (context_handle (cl_ctx CL0))
                (if False then Binary (devices (cl_ctx CL0)) [''__kernel void k( {'']
                 else Source ''__kernel void k( {'')) = None"
    by (simp add: env_bad_build_def env0_def)
  have h2: "refuses env_bad_build
             (trace w0 @ [cl_Program (context_handle (cl_ctx CL0))
                           (if False then Binary (devices (cl_ctx CL0)) [''__kernel void k( {'']
                            else Source ''__kernel void k( {'')])
             (cl_build (length (trace w0))) = Some (RuntimeError, ''build failed'')"
    by (simp add: env_bad_build_def env0_def)
  from CLProgram_init_build_failure [OF h1 h2, of "''k''" None] show ?thesis
    by (simp add: env_bad_build_def env0_def CL0_def w0_def)
qed

text \<open>
  C2 as the spec states it fails. With a compiler that rejects every program with the
  message \<^verbatim>\<open>build failed\<close>, two different sources raise the same error value, which holds
  neither source; and what is printed at \<^verbatim>\<open>DEBUG = 3\<close> is the source, not the
  compiler's message.
\<close>

theorem CLProgram_init_build_failure_same_error:
  "CLProgram_init env_bad_build CL0 ''k'' ''kernel a'' False None w0 =
     (Inl (CLError RuntimeError ''build failed''),
      \<lparr>trace = [cl_Context [dev0], cl_CommandQueue 0 PROFILING_ENABLE,
                cl_Program 0 (Source ''kernel a'')],
       stdout = [print_FAILED_TO_BUILD ''kernel a'']\<rparr>)
   \<and> CLProgram_init env_bad_build CL0 ''k'' ''kernel b'' False None w0 =
     (Inl (CLError RuntimeError ''build failed''),
      \<lparr>trace = [cl_Context [dev0], cl_CommandQueue 0 PROFILING_ENABLE,
                cl_Program 0 (Source ''kernel b'')],
       stdout = [print_FAILED_TO_BUILD ''kernel b'']\<rparr>)"
  by (simp add: CLProgram_init_def native_def print_def env_bad_build_def env0_def CL0_def w0_def)

text \<open>The calls of a construction that returns, and the program it returns.\<close>

lemma dump_binary_Inr:
  "dump_binary env cl p w = (Inr u, w') \<Longrightarrow> trace w' = trace w @ [cl_get_info_BINARIES p]"
  by (auto simp: dump_binary_def print_def split: prod.splits sum.splits option.splits if_splits
           dest!: native_Inr)

lemma CLProgram_init_Inr:
  assumes "CLProgram_init env cl nm prg binary argdts w = (Inr p, w')"
  shows "\<exists>dump. 
     trace w' = trace w @
       [cl_Program (context_handle (cl_ctx cl))
          (if binary then Binary (devices (cl_ctx cl)) [prg] else Source prg),
        cl_build (length (trace w)),
        cl_getattr (Suc (length (trace w))) nm] @ dump @
       (case argdts of None \<Rightarrow> [] | Some ts \<Rightarrow> [cl_set_scalar_arg_dtypes (Suc (Suc (length (trace w)))) ts])
     \<and> (dump = [] \<or> dump = [cl_get_info_BINARIES (length (trace w))])
     \<and> p = \<lparr>prg_name = nm, argdtypes = argdts, clprogram = length (trace w),
             clprg_built = Suc (length (trace w)),
             clprg = \<lparr>kernel_handle = Suc (Suc (length (trace w))), scalar_arg_dtypes = argdts\<rparr>\<rparr>"
proof -
  let ?c1 = "cl_Program (context_handle (cl_ctx cl))
          (if binary then Binary (devices (cl_ctx cl)) [prg] else Source prg)"
  from assms obtain pr w1 where n1: "native env ?c1 w = (Inr pr, w1)"
    by (auto simp: CLProgram_init_def split: prod.splits sum.splits)
  note r1 = native_Inr [OF n1]
  from assms n1 obtain built w2 where n2: "native env (cl_build pr) w1 = (Inr built, w2)"
    by (auto simp: CLProgram_init_def split: prod.splits sum.splits error.splits cl_error_class.splits if_splits)
  note r2 = native_Inr [OF n2]
  from assms n1 n2 obtain k w3 where n3: "native env (cl_getattr built nm) w2 = (Inr k, w3)"
    by (auto simp: CLProgram_init_def split: prod.splits sum.splits)
  note r3 = native_Inr [OF n3]
  from assms n1 n2 n3 obtain u w4 where
    n4: "(if 5 \<le> DEBUG env \<and> \<not> OSX env then dump_binary env cl pr w3 else (Inr (), w3)) = (Inr u, w4)"
    by (auto simp: CLProgram_init_def split: prod.splits sum.splits)
  then have r4: "trace w4 = trace w3 \<or> trace w4 = trace w3 @ [cl_get_info_BINARIES pr]"
    by (auto split: if_splits dest: dump_binary_Inr)
  show ?thesis
  proof (cases argdts)
    case None
    with assms n1 n2 n3 n4 have "w' = w4" and
      "p = \<lparr>prg_name = nm, argdtypes = argdts, clprogram = pr, clprg_built = built,
             clprg = \<lparr>kernel_handle = k, scalar_arg_dtypes = None\<rparr>\<rparr>"
      by (auto simp: CLProgram_init_def)
    with r1 r2 r3 r4 None show ?thesis by auto
  next
    case (Some ts)
    with assms n1 n2 n3 n4 obtain h where
      n5: "native env (cl_set_scalar_arg_dtypes k ts) w4 = (Inr h, w')" and
      "p = \<lparr>prg_name = nm, argdtypes = argdts, clprogram = pr, clprg_built = built,
             clprg = \<lparr>kernel_handle = k, scalar_arg_dtypes = Some ts\<rparr>\<rparr>"
      by (auto simp: CLProgram_init_def split: prod.splits sum.splits)
    with r1 r2 r3 r4 native_Inr [OF n5] Some show ?thesis by auto
  qed
qed

text \<open>The model run on the sample program.\<close>

lemma CLProgram_init_env0:
  "CLProgram_init env0 CL0 ''k'' src0 False (Some [None, Some np_int32]) w_buf = (Inr prg0, w1)"
  by (simp add: CLProgram_init_def native_def env0_def CL0_def w_buf_def prg0_def w1_def)

subsection \<open>Launching\<close>





text \<open>
  C4. A launch with \<^verbatim>\<open>wait=True\<close> whose four calls the binding accepts (the kernel call,
  \<^verbatim>\<open>finish\<close>, the two profiling reads) returns the product
  \<open>((end - start) * OSX_TIMING_RATIO) * 1e-9\<close>, where \<open>end\<close> and \<open>start\<close> are the
  profiling timestamps of the kernel call's event and \<open>OSX_TIMING_RATIO\<close> is \<open>125 / 3\<close>
  on macOS and the literal \<open>1.0\<close> elsewhere. The products are those of the host's float
  arithmetic, whatever it is.
\<close>


theorem launch_wait_duration:
  assumes "refuses env (trace w)
             (cl_call_kernel (clprg self) (cl_queue cl) gs ls (map resolve bufs)) = None"
      and "refuses env
             (trace w @ [cl_call_kernel (clprg self) (cl_queue cl) gs ls (map resolve bufs)])
             (cl_finish (cl_queue cl)) = None"
      and "refuses env
             (trace w @ [cl_call_kernel (clprg self) (cl_queue cl) gs ls (map resolve bufs),
                         cl_finish (cl_queue cl)])
             (cl_profile (length (trace w)) profile_end) = None"
      and "refuses env
             (trace w @ [cl_call_kernel (clprg self) (cl_queue cl) gs ls (map resolve bufs),
                         cl_finish (cl_queue cl), cl_profile (length (trace w)) profile_end])
             (cl_profile (length (trace w)) profile_start) = None"
  shows "CLProgram_call fl env cl self gs ls bufs True w =
           (Inr (Some (fmul fl
                   (fmul fl
                      (float_of_int fl
                         (uint (profile env
                                  (trace w @ [cl_call_kernel (clprg self) (cl_queue cl) gs ls (map resolve bufs),
                                              cl_finish (cl_queue cl)])
                                  (length (trace w)) profile_end)
                          - uint (profile env
                                  (trace w @ [cl_call_kernel (clprg self) (cl_queue cl) gs ls (map resolve bufs),
                                              cl_finish (cl_queue cl)])
                                  (length (trace w)) profile_start)))
                      (if OSX env then int_truediv fl 125 3 else float_lit fl 1 0))
                   (float_lit fl 1 (- 9)))),
            w\<lparr>trace := trace w @
                 [cl_call_kernel (clprg self) (cl_queue cl) gs ls (map resolve bufs),
                  cl_finish (cl_queue cl),
                  cl_profile (length (trace w)) profile_end,
                  cl_profile (length (trace w)) profile_start]\<rparr>)"
  using assms by (simp add: CLProgram_call_def native_def OSX_TIMING_RATIO_def)

text \<open>Conversely, a launch with \<^verbatim>\<open>wait=True\<close> that returns has returned that product.\<close>

lemma launch_wait_returns_duration:
  assumes "CLProgram_call fl env cl self gs ls bufs True w = (Inr r, w')"
  shows "r = Some (fmul fl
                 (fmul fl
                    (float_of_int fl
                       (uint (profile env
                                (trace w @ [cl_call_kernel (clprg self) (cl_queue cl) gs ls (map resolve bufs),
                                            cl_finish (cl_queue cl)])
                                (length (trace w)) profile_end)
                        - uint (profile env
                                (trace w @ [cl_call_kernel (clprg self) (cl_queue cl) gs ls (map resolve bufs),
                                            cl_finish (cl_queue cl)])
                                (length (trace w)) profile_start)))
                    (OSX_TIMING_RATIO fl env))
                 (float_lit fl 1 (- 9)))"
  using assms by (auto simp: CLProgram_call_def native_def split: option.splits)

theorem launch_wait_duration_witness:
  "CLProgram_call exact_floats env0 CL0 prg0 [4] None [CLBuffer_arg buf0, Other 7] True w1 =
     (Inr (Some (3 / 1000000)),
      w1\<lparr>trace := trace w1 @ [cl_call_kernel (clprg prg0) 1 [4] None [Mem 2, Raw 7], cl_finish 1,
                               cl_profile 7 profile_end, cl_profile 7 profile_start]\<rparr>)
   \<and> CLProgram_call exact_floats env_osx CL0 prg0 [4] None [CLBuffer_arg buf0, Other 7] True w1 =
     (Inr (Some (1 / 8000)),
      w1\<lparr>trace := trace w1 @ [cl_call_kernel (clprg prg0) 1 [4] None [Mem 2, Raw 7], cl_finish 1,
                               cl_profile 7 profile_end, cl_profile 7 profile_start]\<rparr>)"
  using launch_wait_duration
          [of env0 w1 prg0 CL0 "[4]" None "[CLBuffer_arg buf0, Other 7]" exact_floats]
        launch_wait_duration
          [of env_osx w1 prg0 CL0 "[4]" None "[CLBuffer_arg buf0, Other 7]" exact_floats]
  by (simp add: env_osx_def env0_def CL0_def w1_def buf0_def exact_floats_def)

text \<open>
  C7. A launch with \<^verbatim>\<open>wait=False\<close> makes the kernel call and nothing else: it returns
  \<^verbatim>\<open>None\<close>, or raises what the binding raised for that call. A launch with \<^verbatim>\<open>wait=True\<close>
  makes the kernel call, then \<^verbatim>\<open>finish\<close> on the queue, then reads the end and the start
  timestamp of the kernel call's event, and returns the duration computed from them; it
  raises at the first of these four calls the binding refuses, with the earlier ones made.
  So a launch that returns has a result other than \<^verbatim>\<open>None\<close> exactly when \<^verbatim>\<open>wait\<close> is true.
\<close>

theorem launch_result_by_wait:
  "(\<not> wait \<longrightarrow>
      CLProgram_call fl env cl self gs ls bufs wait w =
        (case refuses env (trace w)
                (cl_call_kernel (clprg self) (cl_queue cl) gs ls (map resolve bufs)) of
           Some (k, msg) \<Rightarrow> (Inl (CLError k msg), w)
         | None \<Rightarrow>
             (Inr None,
              w\<lparr>trace := trace w @
                   [cl_call_kernel (clprg self) (cl_queue cl) gs ls (map resolve bufs)]\<rparr>)))
   \<and> (wait \<longrightarrow>
        CLProgram_call fl env cl self gs ls bufs wait w =
          (case refuses env (trace w)
                  (cl_call_kernel (clprg self) (cl_queue cl) gs ls (map resolve bufs)) of
             Some (k, msg) \<Rightarrow> (Inl (CLError k msg), w)
           | None \<Rightarrow>
               (case refuses env
                       (trace w @ [cl_call_kernel (clprg self) (cl_queue cl) gs ls (map resolve bufs)])
                       (cl_finish (cl_queue cl)) of
                  Some (k, msg) \<Rightarrow>
                    (Inl (CLError k msg),
                     w\<lparr>trace := trace w @
                          [cl_call_kernel (clprg self) (cl_queue cl) gs ls (map resolve bufs)]\<rparr>)
                | None \<Rightarrow>
                    (case refuses env
                            (trace w @ [cl_call_kernel (clprg self) (cl_queue cl) gs ls (map resolve bufs),
                                        cl_finish (cl_queue cl)])
                            (cl_profile (length (trace w)) profile_end) of
                       Some (k, msg) \<Rightarrow>
                         (Inl (CLError k msg),
                          w\<lparr>trace := trace w @
                               [cl_call_kernel (clprg self) (cl_queue cl) gs ls (map resolve bufs),
                                cl_finish (cl_queue cl)]\<rparr>)
                     | None \<Rightarrow>
                         (case refuses env
                                 (trace w @ [cl_call_kernel (clprg self) (cl_queue cl) gs ls (map resolve bufs),
                                             cl_finish (cl_queue cl),
                                             cl_profile (length (trace w)) profile_end])
                                 (cl_profile (length (trace w)) profile_start) of
                            Some (k, msg) \<Rightarrow>
                              (Inl (CLError k msg),
                               w\<lparr>trace := trace w @
                                    [cl_call_kernel (clprg self) (cl_queue cl) gs ls (map resolve bufs),
                                     cl_finish (cl_queue cl),
                                     cl_profile (length (trace w)) profile_end]\<rparr>)
                          | None \<Rightarrow>
                              (Inr (Some (fmul fl
                                      (fmul fl
                                         (float_of_int fl
                                            (uint (profile env
                                                     (trace w @ [cl_call_kernel (clprg self) (cl_queue cl) gs ls (map resolve bufs),
                                                                 cl_finish (cl_queue cl)])
                                                     (length (trace w)) profile_end)
                                             - uint (profile env
                                                     (trace w @ [cl_call_kernel (clprg self) (cl_queue cl) gs ls (map resolve bufs),
                                                                 cl_finish (cl_queue cl)])
                                                     (length (trace w)) profile_start)))
                                         (OSX_TIMING_RATIO fl env))
                                      (float_lit fl 1 (- 9)))),
                               w\<lparr>trace := trace w @
                                    [cl_call_kernel (clprg self) (cl_queue cl) gs ls (map resolve bufs),
                                     cl_finish (cl_queue cl),
                                     cl_profile (length (trace w)) profile_end,
                                     cl_profile (length (trace w)) profile_start]\<rparr>))))))
   \<and> (\<forall>r w'. CLProgram_call fl env cl self gs ls bufs wait w = (Inr r, w') \<longrightarrow>
         (r \<noteq> None) = wait)"
  by (auto simp: CLProgram_call_def native_def split: option.splits)

theorem launch_result_by_wait_witness:
  "CLProgram_call exact_floats env0 CL0 prg0 [4] None [CLBuffer_arg buf0, Other 7] False w1 =
     (Inr None, w1\<lparr>trace := trace w1 @ [cl_call_kernel (clprg prg0) 1 [4] None [Mem 2, Raw 7]]\<rparr>)
   \<and> CLProgram_call exact_floats env0 CL0 prg0 [4] None [CLBuffer_arg buf0, Other 7] True w1 =
     (Inr (Some (3 / 1000000)),
      w1\<lparr>trace := trace w1 @ [cl_call_kernel (clprg prg0) 1 [4] None [Mem 2, Raw 7], cl_finish 1,
                               cl_profile 7 profile_end, cl_profile 7 profile_start]\<rparr>)"
  using launch_result_by_wait
          [of False exact_floats env0 CL0 prg0 "[4]" None "[CLBuffer_arg buf0, Other 7]" w1,
           THEN conjunct1]
        launch_result_by_wait
          [of True exact_floats env0 CL0 prg0 "[4]" None "[CLBuffer_arg buf0, Other 7]" w1,
           THEN conjunct2, THEN conjunct1]
  by (simp add: OSX_TIMING_RATIO_def env0_def CL0_def w1_def buf0_def exact_floats_def)

end
